theory Spec2Isabelle
  imports Complex_Main
begin

section \<open>JavaScript numbers\<close>

text \<open>
  A TypeScript \<open>number\<close> is modelled as a real extended by the three special values of
  IEEE 754 arithmetic.  The operations follow the IEEE rules for the special values
  (a division by zero gives an infinity or NaN and raises nothing); on finite operands
  they are the exact operations of the reals.  Rounding, overflow and the sign of zero
  are abstracted: a law stated "within floating-point tolerance" reads as an equation
  in this model.
\<close>

datatype number = Fin real | PosInf | NegInf | NaN

definition inf_of_sign :: "real \<Rightarrow> number" where
  "inf_of_sign r = (if r = 0 then NaN else if 0 < r then PosInf else NegInf)"

fun js_neg :: "number \<Rightarrow> number" where
  "js_neg (Fin a) = Fin (- a)"
| "js_neg PosInf = NegInf"
| "js_neg NegInf = PosInf"
| "js_neg NaN = NaN"

fun js_add :: "number \<Rightarrow> number \<Rightarrow> number" where
  "js_add (Fin a) (Fin b) = Fin (a + b)"
| "js_add NaN _ = NaN"
| "js_add _ NaN = NaN"
| "js_add PosInf NegInf = NaN"
| "js_add NegInf PosInf = NaN"
| "js_add PosInf _ = PosInf"
| "js_add NegInf _ = NegInf"
| "js_add (Fin a) PosInf = PosInf"
| "js_add (Fin a) NegInf = NegInf"

definition js_sub :: "number \<Rightarrow> number \<Rightarrow> number" where
  "js_sub a b = js_add a (js_neg b)"

fun js_mul :: "number \<Rightarrow> number \<Rightarrow> number" where
  "js_mul (Fin a) (Fin b) = Fin (a * b)"
| "js_mul NaN _ = NaN"
| "js_mul _ NaN = NaN"
| "js_mul PosInf (Fin b) = inf_of_sign b"
| "js_mul NegInf (Fin b) = inf_of_sign (- b)"
| "js_mul (Fin a) PosInf = inf_of_sign a"
| "js_mul (Fin a) NegInf = inf_of_sign (- a)"
| "js_mul PosInf PosInf = PosInf"
| "js_mul PosInf NegInf = NegInf"
| "js_mul NegInf PosInf = NegInf"
| "js_mul NegInf NegInf = PosInf"

fun js_div :: "number \<Rightarrow> number \<Rightarrow> number" where
  "js_div (Fin a) (Fin b) = (if b = 0 then inf_of_sign a else Fin (a / b))"
| "js_div NaN _ = NaN"
| "js_div _ NaN = NaN"
| "js_div (Fin a) PosInf = Fin 0"
| "js_div (Fin a) NegInf = Fin 0"
| "js_div PosInf (Fin b) = (if b < 0 then NegInf else PosInf)"
| "js_div NegInf (Fin b) = (if b < 0 then PosInf else NegInf)"
| "js_div PosInf PosInf = NaN"
| "js_div PosInf NegInf = NaN"
| "js_div NegInf PosInf = NaN"
| "js_div NegInf NegInf = NaN"

text \<open>
  The model has one zero, which stands for the positive zero of IEEE 754; a negative zero
  is not a value of the model.  With a negative zero as divisor the IEEE division gives
  the infinity of the opposite sign, so no statement about all inputs says which of the
  two infinities a division by zero gives.
\<close>

text \<open>\<open>Number.isFinite\<close>.\<close>

fun isFinite :: "number \<Rightarrow> bool" where
  "isFinite (Fin r) = True"
| "isFinite PosInf = False"
| "isFinite NegInf = False"
| "isFinite NaN = False"

section \<open>Coordinate conversion\<close>

text \<open>\<open>lib/mapbox.ts\<close>: \<open>interface MapBounds\<close>.\<close>

record MapBounds =
  north :: number
  south :: number
  east :: number
  west :: number

text \<open>
  \<open>app/page.tsx\<close>, the helper \<open>geoToPixel\<close> local to \<open>handleSaveImage\<close>.  It reads
  \<open>previewBounds\<close>, \<open>canvas.width\<close> and \<open>canvas.height\<close> from its closure; they are the first
  three arguments here.  A canvas dimension is an unsigned integer.  The helper has no
  \<open>throw\<close> and no guard: its result is the pair \<open>{x, y}\<close>.
\<close>

definition geoToPixel :: "MapBounds \<Rightarrow> nat \<Rightarrow> nat \<Rightarrow> number \<Rightarrow> number \<Rightarrow> number \<times> number" where
  "geoToPixel previewBounds canvas_width canvas_height lng lat =
     (let x = js_mul (js_div (js_sub lng (west previewBounds))
                             (js_sub (east previewBounds) (west previewBounds)))
                     (Fin (real canvas_width));
          y = js_mul (js_div (js_sub (north previewBounds) lat)
                             (js_sub (north previewBounds) (south previewBounds)))
                     (Fin (real canvas_height))
      in (x, y))"


section \<open>Binary64 rounding\<close>










section \<open>The canvas and the compositor\<close>

text \<open>
  The 2D context is the browser's.  What \<open>handleSaveImage\<close> does to it is recorded as the
  list of the calls and assignments it makes, in order.  Literal pixel positions of the
  legend are small integers, kept as \<open>int\<close>; path vertices are \<open>number\<close>s.
\<close>

datatype cmd =
    DrawImage int int
  | SetFillStyle string
  | SetStrokeStyle string
  | SetLineWidth int
  | SetFont string
  | BeginPath
  | MoveTo number number
  | LineTo number number
  | ClosePath
  | Fill
  | Stroke
  | FillRect int int int int
  | StrokeRect int int int int
  | FillText string int int

text \<open>The runtime error of reading a property of \<open>undefined\<close>.\<close>

datatype js_error = TypeError

text \<open>
  \<open>lib/api.ts\<close>: \<open>GeoJSONFeature\<close> and \<open>GeoJSONResponse\<close>.  The compositor also accepts the
  geometry type \<open>MultiPolygon\<close> and skips every other type.  A position is a pair
  \<open>[lng, lat]\<close>.  The compositor reads \<open>feature.properties?.color\<close>, so both the
  properties object and its colour may be absent.
\<close>

type_synonym coord = "number \<times> number"
type_synonym ring = "coord list"

datatype geometry =
    Polygon "ring list"
  | MultiPolygon "ring list list"
  | OtherGeometry

record properties =
  prop_prompt :: string
  prop_confidence :: number
  prop_color :: "string option"

record GeoJSONFeature =
  feat_geometry :: geometry
  feat_properties :: "properties option"

record GeoJSONResponse =
  features :: "GeoJSONFeature list"

text \<open>\<open>app/components/PromptInput.tsx\<close>: \<open>interface Prompt\<close>.\<close>

record Prompt =
  prompt_id :: string
  prompt_text :: string
  prompt_color :: string

text \<open>
  \<open>const color = feature.properties?.color || '#FF0000'\<close>: the default is taken when the
  left operand is falsy, that is absent or the empty string.
\<close>

definition featureColor :: "GeoJSONFeature \<Rightarrow> string" where
  "featureColor feature =
     (case feat_properties feature of
        None \<Rightarrow> ''#FF0000''
      | Some props \<Rightarrow>
          (case prop_color props of
             None \<Rightarrow> ''#FF0000''
           | Some c \<Rightarrow> if c = [] then ''#FF0000'' else c))"

text \<open>
  \<open>coords.forEach((coord, i) => ...)\<close>: the first vertex moves the pen, every later one
  draws a line.
\<close>

fun ringPath :: "MapBounds \<Rightarrow> nat \<Rightarrow> nat \<Rightarrow> nat \<Rightarrow> ring \<Rightarrow> cmd list" where
  "ringPath b cw ch i [] = []"
| "ringPath b cw ch i (coord # rest) =
     (case geoToPixel b cw ch (fst coord) (snd coord) of
        (x, y) \<Rightarrow> (if i = 0 then MoveTo x y else LineTo x y) # ringPath b cw ch (i + 1) rest)"

text \<open>
  One polygon: \<open>beginPath\<close>, the ring at index 0, \<open>closePath\<close>, \<open>fill\<close>, \<open>stroke\<close>.  With no
  ring at index 0 the value of \<open>coords\<close> is \<open>undefined\<close> and \<open>coords.forEach\<close> throws.
\<close>

definition drawPolygon :: "MapBounds \<Rightarrow> nat \<Rightarrow> nat \<Rightarrow> ring list \<Rightarrow> js_error + cmd list" where
  "drawPolygon b cw ch rings =
     (case rings of
        [] \<Rightarrow> Inl TypeError
      | coords # _ \<Rightarrow> Inr ([BeginPath] @ ringPath b cw ch 0 coords @ [ClosePath, Fill, Stroke]))"

text \<open>\<open>for (const polygon of geometry.coordinates)\<close>; an exception leaves the loop.\<close>

fun drawPolygons :: "MapBounds \<Rightarrow> nat \<Rightarrow> nat \<Rightarrow> ring list list \<Rightarrow> js_error + cmd list" where
  "drawPolygons b cw ch [] = Inr []"
| "drawPolygons b cw ch (polygon # rest) =
     (case drawPolygon b cw ch polygon of
        Inl e \<Rightarrow> Inl e
      | Inr cs \<Rightarrow>
          (case drawPolygons b cw ch rest of
             Inl e \<Rightarrow> Inl e
           | Inr ds \<Rightarrow> Inr (cs @ ds)))"

fun drawGeometry :: "MapBounds \<Rightarrow> nat \<Rightarrow> nat \<Rightarrow> geometry \<Rightarrow> js_error + cmd list" where
  "drawGeometry b cw ch (Polygon rings) = drawPolygon b cw ch rings"
| "drawGeometry b cw ch (MultiPolygon polygons) = drawPolygons b cw ch polygons"
| "drawGeometry b cw ch OtherGeometry = Inr []"

text \<open>The body of \<open>for (const feature of resultsToRender.features)\<close>.\<close>

definition drawFeature :: "MapBounds \<Rightarrow> nat \<Rightarrow> nat \<Rightarrow> GeoJSONFeature \<Rightarrow> js_error + cmd list" where
  "drawFeature b cw ch feature =
     (let color = featureColor feature in
      case drawGeometry b cw ch (feat_geometry feature) of
        Inl e \<Rightarrow> Inl e
      | Inr cs \<Rightarrow> Inr ([SetFillStyle (color @ ''66''), SetStrokeStyle color, SetLineWidth 2] @ cs))"

fun drawFeatures :: "MapBounds \<Rightarrow> nat \<Rightarrow> nat \<Rightarrow> GeoJSONFeature list \<Rightarrow> js_error + cmd list" where
  "drawFeatures b cw ch [] = Inr []"
| "drawFeatures b cw ch (feature # rest) =
     (case drawFeature b cw ch feature of
        Inl e \<Rightarrow> Inl e
      | Inr cs \<Rightarrow>
          (case drawFeatures b cw ch rest of
             Inl e \<Rightarrow> Inl e
           | Inr ds \<Rightarrow> Inr (cs @ ds)))"

text \<open>The legend: \<open>legendY = 20\<close>, \<open>legendX = 10\<close>, and \<open>prompts.forEach((prompt, i) => ...)\<close>.\<close>

definition legendY :: int where
  "legendY = 20"

definition legendX :: int where
  "legendX = 10"

fun legendEntries :: "nat \<Rightarrow> Prompt list \<Rightarrow> cmd list" where
  "legendEntries i [] = []"
| "legendEntries i (prompt # rest) =
     (let y = legendY + int i * 25 in
        [SetFillStyle (prompt_color prompt),
         FillRect legendX y 20 15,
         SetStrokeStyle ''#000'',
         StrokeRect legendX y 20 15,
         SetFillStyle ''#fff'',
         FillText (prompt_text prompt) (legendX + 28) (y + 12)])
     @ legendEntries (i + 1) rest"

definition drawLegend :: "Prompt list \<Rightarrow> cmd list" where
  "drawLegend prompts =
     [SetFont ''14px sans-serif'',
      SetFillStyle ''rgba(0, 0, 0, 0.7)'',
      FillRect (legendX - 5) (legendY - 15) 150 (25 * int (length prompts) + 10)]
     @ legendEntries 0 prompts"

text \<open>
  The drawing part of \<open>handleSaveImage\<close>, from \<open>ctx.drawImage(img, 0, 0)\<close> to the end of the
  legend.
\<close>

definition composite :: "MapBounds \<Rightarrow> nat \<Rightarrow> nat \<Rightarrow> GeoJSONFeature list \<Rightarrow> Prompt list \<Rightarrow> js_error + cmd list" where
  "composite b cw ch fs prompts =
     (case drawFeatures b cw ch fs of
        Inl e \<Rightarrow> Inl e
      | Inr cs \<Rightarrow> Inr ([DrawImage 0 0] @ cs @ drawLegend prompts))"

section \<open>Strings\<close>

text \<open>
  A \<open>char\<close> stands for one code unit of a JavaScript string, so the strings of the model
  are those whose code units are below 256.  \<open>String.prototype.trim\<close> removes white space
  and line terminators from both ends; below 256 these are TAB, LF, VT, FF, CR, SPACE and
  NO-BREAK SPACE.  A string is truthy when it is not empty.
\<close>

definition is_whitespace :: "char \<Rightarrow> bool" where
  "is_whitespace c = (c \<in> set [CHR 0x09, CHR 0x0A, CHR 0x0B, CHR 0x0C, CHR 0x0D, CHR 0x20, CHR 0xA0])"

definition trim :: "string \<Rightarrow> string" where
  "trim s = rev (dropWhile is_whitespace (rev (dropWhile is_whitespace s)))"

section \<open>The detection request\<close>

text \<open>\<open>lib/api.ts\<close>: \<open>interface Prompt\<close> and \<open>interface DetectionRequest\<close>.\<close>

record ApiPrompt =
  api_text :: string
  api_color :: string

record DetectionRequest =
  req_image :: string
  req_prompts :: "ApiPrompt list"
  req_bounds :: MapBounds
  req_zoom :: number
  req_confidence :: number

text \<open>
  \<open>detectObjects\<close> posts the object it builds from its five arguments; the model returns
  that object.
\<close>

definition detectObjects :: "string \<Rightarrow> ApiPrompt list \<Rightarrow> MapBounds \<Rightarrow> number \<Rightarrow> number \<Rightarrow> DetectionRequest" where
  "detectObjects img ps bounds z c =
     \<lparr>req_image = img, req_prompts = ps, req_bounds = bounds, req_zoom = z, req_confidence = c\<rparr>"

text \<open>
  \<open>prompts.filter((p) => p.text.trim()).map((p) => ({ text: p.text, color: p.color }))\<close>,
  written twice in \<open>app/page.tsx\<close>.
\<close>

definition apiPrompts :: "Prompt list \<Rightarrow> ApiPrompt list" where
  "apiPrompts ps =
     map (\<lambda>p. \<lparr>api_text = prompt_text p, api_color = prompt_color p\<rparr>)
         (filter (\<lambda>p. trim (prompt_text p) \<noteq> []) ps)"

section \<open>The state of the page\<close>

text \<open>
  \<open>app/page.tsx\<close>: \<open>interface CapturedImage\<close>.  The identifier is the decimal string of the
  clock and the timestamp is the clock; both are the clock reading here.
\<close>

record CapturedImage =
  cap_id :: nat
  cap_image :: string
  cap_timestamp :: nat
  cap_bounds :: MapBounds
  cap_prompts :: "string list"
  cap_detectionCount :: nat
  cap_results :: "GeoJSONResponse option"

text \<open>
  A call of \<open>detectObjects\<close> that has not settled yet, with what the awaiting handler kept
  in its closure: \<open>handleConfirmDetection\<close> keeps the request's image and bounds and the
  texts of all prompts, \<open>handleImageCapture\<close> keeps nothing it uses later.
\<close>

datatype pending =
    AwaitConfirm DetectionRequest "string list"
  | AwaitCapture DetectionRequest

text \<open>
  The state variables of \<open>Home\<close>.  \<open>map_ready\<close> says that \<open>mapRef.current\<close> is set.
  \<open>inflight\<close> is not a variable of the source: it lists the requests awaiting their
  response, oldest first.
\<close>

record AppState =
  map_ready :: bool
  prompts :: "Prompt list"
  confidence :: number
  isLoading :: bool
  detectionResults :: "GeoJSONResponse option"
  error :: "string option"
  zoom :: number
  previewImage :: "string option"
  previewBounds :: "MapBounds option"
  showPreview :: bool
  capturedImages :: "CapturedImage list"
  inflight :: "pending list"

definition initial_state :: AppState where
  "initial_state =
     \<lparr>map_ready = False,
      prompts = [\<lparr>prompt_id = ''1'', prompt_text = ''trees'', prompt_color = ''#00FF00''\<rparr>,
                 \<lparr>prompt_id = ''2'', prompt_text = ''buildings'', prompt_color = ''#FF69B4''\<rparr>],
      confidence = Fin (1 / 2),
      isLoading = False,
      detectionResults = None,
      error = None,
      zoom = Fin 17,
      previewImage = None,
      previewBounds = None,
      showPreview = False,
      capturedImages = [],
      inflight = []\<rparr>"

subsection \<open>The prompt editor\<close>

text \<open>\<open>app/components/PromptInput.tsx\<close>.  The new identifier is the clock's string.\<close>

definition DEFAULT_COLORS :: "string list" where
  "DEFAULT_COLORS = [''#FF69B4'', ''#00FF00'', ''#FF0000'', ''#0000FF'', ''#FFFF00'', ''#FF00FF'']"

definition addPrompt :: "string \<Rightarrow> Prompt list \<Rightarrow> Prompt list" where
  "addPrompt new_id ps =
     ps @ [\<lparr>prompt_id = new_id, prompt_text = [],
            prompt_color = DEFAULT_COLORS ! (length ps mod length DEFAULT_COLORS)\<rparr>]"

definition removePrompt :: "string \<Rightarrow> Prompt list \<Rightarrow> Prompt list" where
  "removePrompt i ps = filter (\<lambda>p. prompt_id p \<noteq> i) ps"

text \<open>The editor calls \<open>updatePrompt\<close> with \<open>{ text: v }\<close> or with \<open>{ color: v }\<close>.\<close>

datatype prompt_update = UpdateText string | UpdateColor string

fun applyUpdate :: "prompt_update \<Rightarrow> Prompt \<Rightarrow> Prompt" where
  "applyUpdate (UpdateText v) p = p\<lparr>prompt_text := v\<rparr>"
| "applyUpdate (UpdateColor v) p = p\<lparr>prompt_color := v\<rparr>"

definition updatePrompt :: "string \<Rightarrow> prompt_update \<Rightarrow> Prompt list \<Rightarrow> Prompt list" where
  "updatePrompt i u ps = map (\<lambda>p. if prompt_id p = i then applyUpdate u p else p) ps"

subsection \<open>The handlers of the page\<close>

text \<open>
  \<open>handleDetect\<close>.  Reading the bounds and the canvas either gives an image and its bounds
  or throws; the message of the exception may be absent.
\<close>

datatype capture_result = Captured string MapBounds | CaptureThrew "string option"

definition handleDetect :: "capture_result \<Rightarrow> AppState \<Rightarrow> AppState" where
  "handleDetect r s =
     (if \<not> map_ready s then s
      else case r of
        Captured img bounds \<Rightarrow>
          s\<lparr>previewImage := Some img, previewBounds := Some bounds, showPreview := True\<rparr>
      | CaptureThrew msg \<Rightarrow>
          s\<lparr>error := Some (''Failed to capture map image: '' @
                (case msg of None \<Rightarrow> ''Unknown error''
                 | Some m \<Rightarrow> if m = [] then ''Unknown error'' else m))\<rparr>)"

text \<open>
  \<open>handleConfirmDetection\<close> up to its \<open>await\<close>, and its two continuations.  The
  continuations run on the state of the moment the response arrives;
  \<open>setCapturedImages\<close> is given a function of the previous list.
\<close>

definition handleConfirmDetection :: "AppState \<Rightarrow> AppState" where
  "handleConfirmDetection s =
     (case (previewImage s, previewBounds s) of
        (Some img, Some bounds) \<Rightarrow>
          if img = [] then s
          else s\<lparr>showPreview := False, isLoading := True, error := None,
                 inflight := inflight s @
                   [AwaitConfirm
                      (detectObjects img (apiPrompts (prompts s)) bounds (zoom s) (confidence s))
                      (map prompt_text (prompts s))]\<rparr>
      | _ \<Rightarrow> s)"

definition newCapture :: "DetectionRequest \<Rightarrow> string list \<Rightarrow> GeoJSONResponse \<Rightarrow> nat \<Rightarrow> CapturedImage" where
  "newCapture req texts results now =
     \<lparr>cap_id = now, cap_image = req_image req, cap_timestamp = now, cap_bounds = req_bounds req,
      cap_prompts = texts, cap_detectionCount = length (features results),
      cap_results = Some results\<rparr>"

definition confirmResolved :: "DetectionRequest \<Rightarrow> string list \<Rightarrow> GeoJSONResponse \<Rightarrow> nat \<Rightarrow> AppState \<Rightarrow> AppState" where
  "confirmResolved req texts results now s =
     s\<lparr>detectionResults := Some results,
       capturedImages := take 10 (newCapture req texts results now # capturedImages s),
       isLoading := False\<rparr>"

definition detectionRejected :: "string \<Rightarrow> AppState \<Rightarrow> AppState" where
  "detectionRejected msg s = s\<lparr>error := Some msg, isLoading := False\<rparr>"

text \<open>
  \<open>handleImageCapture\<close> up to its \<open>await\<close>, and its continuation on success.  On failure
  it does what \<open>handleConfirmDetection\<close> does.
\<close>

definition handleImageCapture :: "string \<Rightarrow> MapBounds \<Rightarrow> AppState \<Rightarrow> AppState" where
  "handleImageCapture img bounds s =
     (if \<not> map_ready s \<or> prompts s = [] \<or> list_ex (\<lambda>p. trim (prompt_text p) = []) (prompts s)
      then s\<lparr>error := Some ''Please add at least one prompt with text.''\<rparr>
      else s\<lparr>isLoading := True, error := None,
             inflight := inflight s @
               [AwaitCapture
                  (detectObjects img (apiPrompts (prompts s)) bounds (zoom s) (confidence s))]\<rparr>)"

definition captureResolved :: "GeoJSONResponse \<Rightarrow> AppState \<Rightarrow> AppState" where
  "captureResolved results s = s\<lparr>detectionResults := Some results, isLoading := False\<rparr>"

definition handleCancelPreview :: "AppState \<Rightarrow> AppState" where
  "handleCancelPreview s = s\<lparr>showPreview := False, previewImage := None, previewBounds := None\<rparr>"

definition handleClearResults :: "AppState \<Rightarrow> AppState" where
  "handleClearResults s = s\<lparr>detectionResults := None\<rparr>"

text \<open>The \<open>onClick\<close> of an entry of the history.\<close>

definition selectCapture :: "CapturedImage \<Rightarrow> AppState \<Rightarrow> AppState" where
  "selectCapture capture s =
     (let s1 = (case cap_results capture of
                  Some r \<Rightarrow> s\<lparr>detectionResults := Some r\<rparr>
                | None \<Rightarrow> s)
      in s1\<lparr>previewImage := Some (cap_image capture),
             previewBounds := Some (cap_bounds capture),
             showPreview := True\<rparr>)"

subsection \<open>Saving the composited image\<close>

text \<open>
  What \<open>handleSaveImage\<close> needs from the browser: the size of the decoded image (absent
  when the image never loads, and then the awaited promise never settles) and whether
  the canvas yields a 2D context.
\<close>

record SaveEnv =
  image_size :: "(nat \<times> nat) option"
  context_2d :: bool

datatype save_outcome =
    NoDownload
  | DownloadPlain string
  | DownloadComposite "cmd list"
  | Rejected js_error
  | NeverSettles

text \<open>\<open>capture?.results || detectionResults\<close>, for the capture found by its image.\<close>

definition resultsToRender :: "AppState \<Rightarrow> string \<Rightarrow> GeoJSONResponse option" where
  "resultsToRender s img =
     (case find (\<lambda>c. cap_image c = img) (capturedImages s) of
        Some capture \<Rightarrow>
          (case cap_results capture of
             Some r \<Rightarrow> Some r
           | None \<Rightarrow> detectionResults s)
      | None \<Rightarrow> detectionResults s)"

definition handleSaveImage :: "SaveEnv \<Rightarrow> AppState \<Rightarrow> save_outcome" where
  "handleSaveImage env s =
     (case previewImage s of
        None \<Rightarrow> NoDownload
      | Some img \<Rightarrow>
          if img = [] then NoDownload
          else
            (case (resultsToRender s img, previewBounds s) of
               (Some results, Some bounds) \<Rightarrow>
                 (case image_size env of
                    None \<Rightarrow> NeverSettles
                  | Some (w, h) \<Rightarrow>
                      if \<not> context_2d env then NoDownload
                      else
                        (case composite bounds w h (features results) (prompts s) of
                           Inl e \<Rightarrow> Rejected e
                         | Inr cmds \<Rightarrow> DownloadComposite cmds))
             | _ \<Rightarrow> DownloadPlain img))"

subsection \<open>Events\<close>

text \<open>
  The events that reach the handlers through the rendered page: clicks and changes on
  its controls, the map's own events, and the settling of a request in flight.  A click
  on a control that is disabled or not rendered does nothing.  The "Detect in View"
  button and the confidence slider are disabled while \<open>isLoading\<close>; the modal and its
  buttons are rendered when \<open>showPreview && previewImage\<close>, and its "Run Detection"
  button is disabled while \<open>isLoading\<close>; "Clear Results" is rendered when the detection
  count is positive.
\<close>

datatype app_event =
    MapReady
  | ZoomChanged number
  | PromptAdded string
  | PromptRemoved string
  | PromptUpdated string prompt_update
  | ConfidenceChanged number
  | ClickDetect capture_result
  | ClickRunDetection
  | ClickSaveImage
  | ClickCancel
  | ClickClearResults
  | ClickCapture nat
  | RequestResolved nat GeoJSONResponse nat
  | RequestRejected nat string

definition detectDisabled :: "AppState \<Rightarrow> bool" where
  "detectDisabled s = isLoading s"

definition runDetectionDisabled :: "AppState \<Rightarrow> bool" where
  "runDetectionDisabled s = isLoading s"

definition modalRendered :: "AppState \<Rightarrow> bool" where
  "modalRendered s =
     (showPreview s \<and> (case previewImage s of None \<Rightarrow> False | Some img \<Rightarrow> img \<noteq> []))"

definition detectionCount :: "AppState \<Rightarrow> nat" where
  "detectionCount s = (case detectionResults s of None \<Rightarrow> 0 | Some r \<Rightarrow> length (features r))"

text \<open>Removing the request at a position from the list of those in flight.\<close>

definition settle :: "nat \<Rightarrow> pending list \<Rightarrow> pending list" where
  "settle i ps = take i ps @ drop (Suc i) ps"

fun resume :: "pending \<Rightarrow> GeoJSONResponse \<Rightarrow> nat \<Rightarrow> AppState \<Rightarrow> AppState" where
  "resume (AwaitConfirm req texts) results now s = confirmResolved req texts results now s"
| "resume (AwaitCapture req) results now s = captureResolved results s"

fun step :: "AppState \<Rightarrow> app_event \<Rightarrow> AppState" where
  "step s MapReady = s\<lparr>map_ready := True\<rparr>"
| "step s (ZoomChanged z) = (if map_ready s then s\<lparr>zoom := z\<rparr> else s)"
| "step s (PromptAdded new_id) = s\<lparr>prompts := addPrompt new_id (prompts s)\<rparr>"
| "step s (PromptRemoved i) = s\<lparr>prompts := removePrompt i (prompts s)\<rparr>"
| "step s (PromptUpdated i u) = s\<lparr>prompts := updatePrompt i u (prompts s)\<rparr>"
| "step s (ConfidenceChanged c) = (if isLoading s then s else s\<lparr>confidence := c\<rparr>)"
| "step s (ClickDetect r) = (if detectDisabled s then s else handleDetect r s)"
| "step s ClickRunDetection =
     (if modalRendered s \<and> \<not> runDetectionDisabled s then handleConfirmDetection s else s)"
| "step s ClickSaveImage = s"
| "step s ClickCancel = (if modalRendered s then handleCancelPreview s else s)"
| "step s ClickClearResults = (if 0 < detectionCount s then handleClearResults s else s)"
| "step s (ClickCapture i) =
     (if i < length (capturedImages s) then selectCapture (capturedImages s ! i) s else s)"
| "step s (RequestResolved i results now) =
     (if i < length (inflight s)
      then resume (inflight s ! i) results now (s\<lparr>inflight := settle i (inflight s)\<rparr>)
      else s)"
| "step s (RequestRejected i msg) =
     (if i < length (inflight s)
      then detectionRejected msg (s\<lparr>inflight := settle i (inflight s)\<rparr>)
      else s)"

text \<open>
  \<open>MapView\<close> stores its capture function in \<open>window.__mapCapture\<close>; no control of the
  page calls it.  A call of it from outside reaches \<open>handleImageCapture\<close>.
\<close>

datatype event = Page app_event | MapCaptureHook string MapBounds

fun step_event :: "AppState \<Rightarrow> event \<Rightarrow> AppState" where
  "step_event s (Page e) = step s e"
| "step_event s (MapCaptureHook img bounds) = handleImageCapture img bounds s"

section \<open>Observations\<close>

text \<open>
  What a list of canvas commands paints with the fill style: every \<open>fillRect\<close>,
  \<open>fillText\<close> and \<open>fill\<close>, paired with the string last assigned to \<open>fillStyle\<close> (the
  first argument is the style before the list).
\<close>

fun fills :: "string \<Rightarrow> cmd list \<Rightarrow> (string \<times> cmd) list" where
  "fills st [] = []"
| "fills st (SetFillStyle c # cs) = fills c cs"
| "fills st (FillRect x y w h # cs) = (st, FillRect x y w h) # fills st cs"
| "fills st (FillText t x y # cs) = (st, FillText t x y) # fills st cs"
| "fills st (Fill # cs) = (st, Fill) # fills st cs"
| "fills st (_ # cs) = fills st cs"

text \<open>The commands that build and paint a path.\<close>

fun is_path_cmd :: "cmd \<Rightarrow> bool" where
  "is_path_cmd BeginPath = True"
| "is_path_cmd (MoveTo x y) = True"
| "is_path_cmd (LineTo x y) = True"
| "is_path_cmd ClosePath = True"
| "is_path_cmd Fill = True"
| "is_path_cmd Stroke = True"
| "is_path_cmd _ = False"

text \<open>The request a pending call carries, and which handler awaits it.\<close>

fun request_of :: "pending \<Rightarrow> DetectionRequest" where
  "request_of (AwaitConfirm req texts) = req"
| "request_of (AwaitCapture req) = req"

fun awaits_confirm :: "pending \<Rightarrow> bool" where
  "awaits_confirm (AwaitConfirm req texts) = True"
| "awaits_confirm (AwaitCapture req) = False"

text \<open>
  The invariant of the page: at most one request is in flight, \<open>isLoading\<close> says whether
  one is, and every request in flight was sent by \<open>handleConfirmDetection\<close>.
\<close>

definition one_request :: "AppState \<Rightarrow> bool" where
  "one_request s = (length (inflight s) \<le> 1 \<and> isLoading s = (inflight s \<noteq> [])
      \<and> list_all awaits_confirm (inflight s))"

section \<open>Properties of the coordinate conversion\<close>




























text \<open>
  Claim C3, as amended.  \<open>geoToPixel\<close> has no failure: for a bounding box with
  \<open>west = east\<close> it divides by zero and the x coordinate it returns is not finite (it is
  NaN or an infinity), whatever the longitude and the canvas width; likewise for
  \<open>north = south\<close> and the y coordinate.
\<close>

theorem degenerate_bounds_not_finite:
  "\<not> isFinite (fst (geoToPixel \<lparr>north = n, south = s, east = Fin w, west = Fin w\<rparr> cw ch lng lat))
   \<and> \<not> isFinite (snd (geoToPixel \<lparr>north = Fin n', south = Fin n', east = e, west = w'\<rparr> cw ch lng lat))"
proof -
  have d: "\<not> isFinite (js_mul (js_div a (Fin 0)) (Fin c))" for a c
    by (cases a) (simp_all add: inf_of_sign_def)
  show ?thesis
    by (simp add: geoToPixel_def js_sub_def d)
qed

theorem degenerate_bounds_not_finite_witness:
  "\<not> isFinite (fst (geoToPixel \<lparr>north = Fin 2, south = Fin 2, east = Fin 5, west = Fin 5\<rparr> 512 512 (Fin 6) (Fin 3)))
   \<and> \<not> isFinite (snd (geoToPixel \<lparr>north = Fin 2, south = Fin 2, east = Fin 5, west = Fin 5\<rparr> 512 512 (Fin 6) (Fin 3)))"
  using degenerate_bounds_not_finite
    [where n = "Fin 2" and s = "Fin 2" and w = 5 and n' = 2 and e = "Fin 5" and w' = "Fin 5"
       and cw = 512 and ch = 512 and lng = "Fin 6" and lat = "Fin 3"]
  by simp

text \<open>
  Claim C3 as stated fails: with \<open>west = east = 0\<close> the helper returns the pair
  \<open>(NaN, 256)\<close> for the point \<open>(0, 1/2)\<close>, and drawing a polygon under these bounds
  completes with the path through the non-finite positions; no error is raised.
\<close>

theorem degenerate_bounds_counterexample:
  "geoToPixel \<lparr>north = Fin 1, south = Fin 0, east = Fin 0, west = Fin 0\<rparr> 512 512 (Fin 0) (Fin (1/2))
     = (NaN, Fin 256)
   \<and> drawGeometry \<lparr>north = Fin 1, south = Fin 0, east = Fin 0, west = Fin 0\<rparr> 512 512
        (Polygon [[(Fin 0, Fin (1/2)), (Fin 1, Fin 1)]])
     = Inr [BeginPath, MoveTo NaN (Fin 256), LineTo PosInf (Fin 0), ClosePath, Fill, Stroke]"
  by (simp add: geoToPixel_def js_sub_def inf_of_sign_def drawPolygon_def)

section \<open>Properties of the compositor\<close>

lemma ringPath_Suc: "ringPath b cw ch (Suc i) cs = map (\<lambda>c. case geoToPixel b cw ch (fst c) (snd c) of (x, y) \<Rightarrow> LineTo x y) cs"
  by (induction cs arbitrary: i) (auto split: prod.splits)

lemma drawPolygons_outer:
  "drawPolygons b cw ch (map (\<lambda>(outer, holes). outer # holes) ps)
     = Inr (concat (map (\<lambda>(outer, holes). BeginPath # ringPath b cw ch 0 outer @ [ClosePath, Fill, Stroke]) ps))"
  by (induction ps) (auto simp: drawPolygon_def)

lemma legendEntries_no_path: "filter is_path_cmd (legendEntries i ps) = []"
  by (induction ps arbitrary: i) (simp_all add: Let_def)

lemma drawLegend_no_path: "filter is_path_cmd (drawLegend ps) = []"
  by (simp add: drawLegend_def legendEntries_no_path)

lemma fills_legendEntries:
  "fills st (legendEntries i ps)
     = concat (map (\<lambda>(k, p). [(prompt_color p, FillRect 10 (20 + 25 * int k) 20 15),
                                (''#fff'', FillText (prompt_text p) 38 (32 + 25 * int k))])
                   (enumerate i ps))"
  by (induction ps arbitrary: i st) (simp_all add: Let_def legendX_def legendY_def)

lemma handleSaveImage_composite:
  assumes "handleSaveImage env s = DownloadComposite cmds"
  shows "\<exists>pre. cmds = pre @ drawLegend (prompts s)"
  using assms
  by (auto simp: handleSaveImage_def composite_def split: option.splits if_splits sum.splits prod.splits)

lemma drawFeature_isl_properties:
  "isl (drawFeature b cw ch (g\<lparr>feat_properties := r\<rparr>)) = isl (drawFeature b cw ch g)"
  by (simp add: drawFeature_def Let_def split: sum.splits)

lemma drawFeatures_isl_properties:
  "isl (drawFeatures b cw ch (map (\<lambda>f. f\<lparr>feat_properties := q f\<rparr>) fs)) = isl (drawFeatures b cw ch fs)"
proof (induction fs)
  case Nil
  show ?case by simp
next
  case (Cons g gs)
  show ?case
    using Cons.IH drawFeature_isl_properties [where g = g and r = "q g" and b = b and cw = cw and ch = ch]
    by (cases "drawFeature b cw ch (g\<lparr>feat_properties := q g\<rparr>)"; cases "drawFeature b cw ch g";
        cases "drawFeatures b cw ch (map (\<lambda>f. f\<lparr>feat_properties := q f\<rparr>) gs)"; cases "drawFeatures b cw ch gs")
       simp_all
qed

lemma composite_isl: "isl (composite b cw ch fs ps) = isl (drawFeatures b cw ch fs)"
  by (simp add: composite_def split: sum.splits)

text \<open>
  Claim C4.  Compositing a collection with no features onto a captured image draws the
  image and then the legend and nothing else: the download is the image followed by the
  legend's commands, and no command among them builds, fills or strokes a path.
\<close>

theorem empty_collection_legend_only:
  assumes "previewImage s = Some img" and "img \<noteq> []"
    and "resultsToRender s img = Some results" and "features results = []"
    and "previewBounds s = Some bounds"
    and "image_size env = Some (cw, ch)" and "context_2d env"
  shows "handleSaveImage env s = DownloadComposite (DrawImage 0 0 # drawLegend (prompts s))
       \<and> filter is_path_cmd (DrawImage 0 0 # drawLegend (prompts s)) = []"
  using assms by (simp add: handleSaveImage_def composite_def drawLegend_no_path)

theorem empty_collection_legend_only_witness:
  "handleSaveImage \<lparr>image_size = Some (512, 512), context_2d = True\<rparr>
     (initial_state\<lparr>previewImage := Some ''data:image/png;base64,iVBORw0KGgo='',
                    previewBounds := Some \<lparr>north = Fin 29.43, south = Fin 29.42, east = Fin (-98.48), west = Fin (-98.50)\<rparr>,
                    detectionResults := Some \<lparr>features = []\<rparr>\<rparr>)
   = DownloadComposite
       [DrawImage 0 0, SetFont ''14px sans-serif'', SetFillStyle ''rgba(0, 0, 0, 0.7)'',
        FillRect 5 5 150 60,
        SetFillStyle ''#00FF00'', FillRect 10 20 20 15, SetStrokeStyle ''#000'',
        StrokeRect 10 20 20 15, SetFillStyle ''#fff'', FillText ''trees'' 38 32,
        SetFillStyle ''#FF69B4'', FillRect 10 45 20 15, SetStrokeStyle ''#000'',
        StrokeRect 10 45 20 15, SetFillStyle ''#fff'', FillText ''buildings'' 38 57]"
  using empty_collection_legend_only
    [of "initial_state\<lparr>previewImage := Some ''data:image/png;base64,iVBORw0KGgo='',
                    previewBounds := Some \<lparr>north = Fin 29.43, south = Fin 29.42, east = Fin (-98.48), west = Fin (-98.50)\<rparr>,
                    detectionResults := Some \<lparr>features = []\<rparr>\<rparr>"
        "''data:image/png;base64,iVBORw0KGgo=''" "\<lparr>features = []\<rparr>"
        "\<lparr>north = Fin 29.43, south = Fin 29.42, east = Fin (-98.48), west = Fin (-98.50)\<rparr>"
        "\<lparr>image_size = Some (512, 512), context_2d = True\<rparr>" 512 512]
  by (simp add: initial_state_def resultsToRender_def drawLegend_def legendX_def legendY_def)

text \<open>
  Claim C5.  Only the outer ring of each polygon is drawn.  A feature with a Polygon is
  drawn as one path through the vertices of the ring at index 0, whatever rings follow
  it.  A feature with a MultiPolygon is drawn as one such path per polygon, each begun,
  closed, filled and stroked on its own, in the order of the polygons and each through
  its ring at index 0 only.  The path moves to the first vertex and draws a line to
  every later one.
\<close>

theorem outer_ring_only:
  "drawFeature b cw ch (f\<lparr>feat_geometry := Polygon (outer # holes)\<rparr>)
     = Inr ([SetFillStyle (featureColor f @ ''66''), SetStrokeStyle (featureColor f), SetLineWidth 2]
            @ BeginPath # ringPath b cw ch 0 outer @ [ClosePath, Fill, Stroke])
   \<and> drawFeature b cw ch (f\<lparr>feat_geometry := MultiPolygon (map (\<lambda>(outer, holes). outer # holes) ps)\<rparr>)
     = Inr ([SetFillStyle (featureColor f @ ''66''), SetStrokeStyle (featureColor f), SetLineWidth 2]
            @ concat (map (\<lambda>(outer, holes). BeginPath # ringPath b cw ch 0 outer @ [ClosePath, Fill, Stroke]) ps))
   \<and> ringPath b cw ch 0 (c # cs)
     = (case geoToPixel b cw ch (fst c) (snd c) of (x, y) \<Rightarrow> MoveTo x y)
       # map (\<lambda>c. case geoToPixel b cw ch (fst c) (snd c) of (x, y) \<Rightarrow> LineTo x y) cs"
  by (simp add: drawFeature_def drawPolygon_def drawPolygons_outer featureColor_def ringPath_Suc Let_def split: prod.splits)

theorem outer_ring_only_witness:
  "drawFeature \<lparr>north = Fin 1, south = Fin 0, east = Fin 1, west = Fin 0\<rparr> 512 512
     \<lparr>feat_geometry = Polygon [[(Fin 0, Fin 1), (Fin 1, Fin 1), (Fin 1, Fin 0)],
                               [(Fin (1 / 4), Fin (3 / 4)), (Fin (1 / 2), Fin (3 / 4)), (Fin (1 / 2), Fin (1 / 2))]],
      feat_properties = None\<rparr>
   = Inr [SetFillStyle ''#FF000066'', SetStrokeStyle ''#FF0000'', SetLineWidth 2,
          BeginPath, MoveTo (Fin 0) (Fin 0), LineTo (Fin 512) (Fin 0), LineTo (Fin 512) (Fin 512),
          ClosePath, Fill, Stroke]"
  using outer_ring_only
    [where b = "\<lparr>north = Fin 1, south = Fin 0, east = Fin 1, west = Fin 0\<rparr>"
       and cw = 512 and ch = 512
       and f = "\<lparr>feat_geometry = OtherGeometry, feat_properties = None\<rparr>"
       and outer = "[(Fin 0, Fin 1), (Fin 1, Fin 1), (Fin 1, Fin 0)]"
       and holes = "[[(Fin (1 / 4), Fin (3 / 4)), (Fin (1 / 2), Fin (3 / 4)), (Fin (1 / 2), Fin (1 / 2))]]"
       and ps = "[]" and c = "(Fin 0, Fin 1)" and cs = "[(Fin 1, Fin 1), (Fin 1, Fin 0)]"]
  by (simp add: featureColor_def geoToPixel_def js_sub_def)

text \<open>
  Claim C6, as amended.  A feature whose color is missing (no properties, no color, or
  the empty string) is drawn in the default color \<open>#FF0000\<close>.  A color string that is
  not empty is used as it stands, whether or not it is a color: the fill style is the
  string followed by \<open>66\<close> and the stroke style is the string.  No color aborts the
  composite: whether the composite completes does not depend on the properties of any
  feature.
\<close>

theorem color_fallback:
  "featureColor (f\<lparr>feat_properties := None\<rparr>) = ''#FF0000''
   \<and> featureColor (f\<lparr>feat_properties := Some (p\<lparr>prop_color := None\<rparr>)\<rparr>) = ''#FF0000''
   \<and> featureColor (f\<lparr>feat_properties := Some (p\<lparr>prop_color := Some []\<rparr>)\<rparr>) = ''#FF0000''
   \<and> featureColor (f\<lparr>feat_properties := Some (p\<lparr>prop_color := Some (c # cs)\<rparr>)\<rparr>) = c # cs
   \<and> (case drawGeometry b cw ch (feat_geometry f) of
         Inl e \<Rightarrow> drawFeature b cw ch f = Inl e
       | Inr g \<Rightarrow> drawFeature b cw ch f
                   = Inr ([SetFillStyle (featureColor f @ ''66''), SetStrokeStyle (featureColor f),
                           SetLineWidth 2] @ g))
   \<and> isl (composite b cw ch (map (\<lambda>f. f\<lparr>feat_properties := q f\<rparr>) fs) ps)
       = isl (composite b cw ch fs ps)"
  by (simp add: featureColor_def drawFeature_def Let_def composite_isl drawFeatures_isl_properties
           split: sum.splits)

theorem color_fallback_witness:
  "drawFeature \<lparr>north = Fin 1, south = Fin 0, east = Fin 1, west = Fin 0\<rparr> 512 512
     \<lparr>feat_geometry = Polygon [[(Fin 0, Fin 1), (Fin 1, Fin 0)]],
      feat_properties = Some \<lparr>prop_prompt = ''trees'', prop_confidence = Fin (9 / 10),
                               prop_color = None\<rparr>\<rparr>
   = Inr [SetFillStyle ''#FF000066'', SetStrokeStyle ''#FF0000'', SetLineWidth 2,
          BeginPath, MoveTo (Fin 0) (Fin 0), LineTo (Fin 512) (Fin 512), ClosePath, Fill, Stroke]"
  using color_fallback
    [where f = "\<lparr>feat_geometry = Polygon [[(Fin 0, Fin 1), (Fin 1, Fin 0)]],
                 feat_properties = Some \<lparr>prop_prompt = ''trees'', prop_confidence = Fin (9 / 10),
                                          prop_color = None\<rparr>\<rparr>"
       and p = "\<lparr>prop_prompt = ''trees'', prop_confidence = Fin (9 / 10), prop_color = None\<rparr>"
       and c = "CHR ''x''" and cs = "[]" and q = "\<lambda>f. None" and fs = "[]" and ps = "[]"
       and b = "\<lparr>north = Fin 1, south = Fin 0, east = Fin 1, west = Fin 0\<rparr>"
       and cw = 512 and ch = 512]
  by (simp add: drawPolygon_def geoToPixel_def js_sub_def)

text \<open>
  Claim C6 as stated fails: the string \<open>notacolor\<close> is no color, and the compositor
  assigns \<open>notacolor66\<close> to the fill style and \<open>notacolor\<close> to the stroke style of the
  feature; the default \<open>#FF0000\<close> is not used.
\<close>

theorem color_fallback_counterexample:
  "drawFeature \<lparr>north = Fin 1, south = Fin 0, east = Fin 1, west = Fin 0\<rparr> 512 512
     \<lparr>feat_geometry = Polygon [[(Fin 0, Fin 1), (Fin 1, Fin 1), (Fin 1, Fin 0)]],
      feat_properties = Some \<lparr>prop_prompt = ''trees'', prop_confidence = Fin (9 / 10),
                               prop_color = Some ''notacolor''\<rparr>\<rparr>
   = Inr [SetFillStyle ''notacolor66'', SetStrokeStyle ''notacolor'', SetLineWidth 2,
          BeginPath, MoveTo (Fin 0) (Fin 0), LineTo (Fin 512) (Fin 0), LineTo (Fin 512) (Fin 512),
          ClosePath, Fill, Stroke]"
  by (simp add: drawFeature_def featureColor_def drawPolygon_def geoToPixel_def js_sub_def)

text \<open>
  Claim C8.  The legend lists every configured prompt in the order of the prompt list:
  after the panel, row \<open>k\<close> is the swatch of prompt \<open>k\<close>, a 20 by 15 rectangle filled
  with that prompt's color at height \<open>20 + 25 k\<close>, and then that prompt's text.  The
  composited download ends with this legend, drawn from the page's prompts.
\<close>

theorem legend_lists_prompts:
  "fills st (drawLegend ps)
     = (''rgba(0, 0, 0, 0.7)'', FillRect 5 5 150 (25 * int (length ps) + 10))
       # concat (map (\<lambda>(k, p). [(prompt_color p, FillRect 10 (20 + 25 * int k) 20 15),
                                  (''#fff'', FillText (prompt_text p) 38 (32 + 25 * int k))])
                     (enumerate 0 ps))
   \<and> (handleSaveImage env s = DownloadComposite cmds \<longrightarrow> (\<exists>pre. cmds = pre @ drawLegend (prompts s)))"
  using handleSaveImage_composite
  by (simp add: drawLegend_def fills_legendEntries legendX_def legendY_def)

theorem legend_lists_prompts_witness:
  "fills ''#000000''
     (drawLegend [\<lparr>prompt_id = ''1'', prompt_text = ''cars'', prompt_color = ''#FF0000''\<rparr>,
                  \<lparr>prompt_id = ''2'', prompt_text = ''trees'', prompt_color = ''#00FF00''\<rparr>])
   = [(''rgba(0, 0, 0, 0.7)'', FillRect 5 5 150 60),
      (''#FF0000'', FillRect 10 20 20 15), (''#fff'', FillText ''cars'' 38 32),
      (''#00FF00'', FillRect 10 45 20 15), (''#fff'', FillText ''trees'' 38 57)]
   \<and> handleSaveImage \<lparr>image_size = Some (512, 512), context_2d = True\<rparr>
        (initial_state\<lparr>previewImage := Some ''data:image/png;base64,iVBORw0KGgo='',
                       previewBounds := Some \<lparr>north = Fin 1, south = Fin 0, east = Fin 1, west = Fin 0\<rparr>,
                       detectionResults := Some \<lparr>features = []\<rparr>\<rparr>)
       = DownloadComposite (DrawImage 0 0 # drawLegend (prompts initial_state))
   \<and> (\<exists>pre. DrawImage 0 0 # drawLegend (prompts initial_state) = pre @ drawLegend (prompts initial_state))"
proof -
  let ?s = "initial_state\<lparr>previewImage := Some ''data:image/png;base64,iVBORw0KGgo='',
                       previewBounds := Some \<lparr>north = Fin 1, south = Fin 0, east = Fin 1, west = Fin 0\<rparr>,
                       detectionResults := Some \<lparr>features = []\<rparr>\<rparr>"
  let ?env = "\<lparr>image_size = Some (512, 512), context_2d = True\<rparr>"
  have h: "handleSaveImage ?env ?s = DownloadComposite (DrawImage 0 0 # drawLegend (prompts initial_state))"
    by (simp add: handleSaveImage_def resultsToRender_def composite_def initial_state_def)
  have p: "prompts ?s = prompts initial_state" by simp
  from legend_lists_prompts
         [of "''#000000''"
             "[\<lparr>prompt_id = ''1'', prompt_text = ''cars'', prompt_color = ''#FF0000''\<rparr>,
               \<lparr>prompt_id = ''2'', prompt_text = ''trees'', prompt_color = ''#00FF00''\<rparr>]"
             ?env ?s "DrawImage 0 0 # drawLegend (prompts initial_state)"]
  show ?thesis using h p by (simp add: enumerate_eq_zip)
qed

section \<open>Properties of the page\<close>

lemma one_request_initial: "one_request initial_state"
  by (simp add: one_request_def initial_state_def)

lemma one_request_step:
  assumes "one_request s"
  shows "one_request (step s e)"
proof (cases e)
  case ClickRunDetection
  then show ?thesis
    using assms
    by (auto simp: one_request_def handleConfirmDetection_def runDetectionDisabled_def
             split: option.splits)
next
  case (RequestResolved i results now)
  show ?thesis
  proof (cases "i < length (inflight s)")
    case True
    with assms obtain p where p: "inflight s = [p]" and i: "i = 0"
      by (cases "inflight s") (auto simp: one_request_def)
    from assms p obtain req texts where "p = AwaitConfirm req texts"
      by (cases p) (auto simp: one_request_def)
    with p i RequestResolved show ?thesis
      by (simp add: one_request_def settle_def confirmResolved_def)
  next
    case False
    with RequestResolved assms show ?thesis by simp
  qed
next
  case (RequestRejected i msg)
  show ?thesis
  proof (cases "i < length (inflight s)")
    case True
    with assms obtain p where p: "inflight s = [p]" and i: "i = 0"
      by (cases "inflight s") (auto simp: one_request_def)
    with RequestRejected show ?thesis
      by (simp add: one_request_def settle_def detectionRejected_def)
  next
    case False
    with RequestRejected assms show ?thesis by simp
  qed
next
  case (ClickDetect r)
  then show ?thesis using assms
    by (auto simp: one_request_def handleDetect_def split: capture_result.splits)
next
  case (ClickCapture i)
  then show ?thesis using assms
    by (auto simp: one_request_def selectCapture_def Let_def split: option.splits)
qed (use assms in \<open>auto simp: one_request_def handleCancelPreview_def handleClearResults_def\<close>)

lemma one_request_run: "one_request s \<Longrightarrow> one_request (foldl step s es)"
  by (induction es arbitrary: s) (simp_all add: one_request_step)

lemma one_request_reachable: "one_request (foldl step initial_state es)"
  by (simp add: one_request_run one_request_initial)

lemma history_step: "length (capturedImages s) \<le> 10 \<Longrightarrow> length (capturedImages (step s e)) \<le> 10"
proof (cases e)
  case (RequestResolved i results now)
  assume "length (capturedImages s) \<le> 10"
  then show ?thesis
    using RequestResolved
    by (cases "inflight s ! i") (auto simp: confirmResolved_def captureResolved_def)
next
  case (ClickDetect r)
  assume "length (capturedImages s) \<le> 10"
  then show ?thesis using ClickDetect
    by (auto simp: handleDetect_def split: capture_result.splits)
next
  case (ClickCapture i)
  assume "length (capturedImages s) \<le> 10"
  then show ?thesis using ClickCapture
    by (auto simp: selectCapture_def Let_def split: option.splits)
next
  case ClickRunDetection
  assume "length (capturedImages s) \<le> 10"
  then show ?thesis using ClickRunDetection
    by (auto simp: handleConfirmDetection_def split: option.splits)
qed (auto simp: handleCancelPreview_def handleClearResults_def detectionRejected_def)

lemma history_step_event:
  "length (capturedImages s) \<le> 10 \<Longrightarrow> length (capturedImages (step_event s ev)) \<le> 10"
  by (cases ev) (auto simp: history_step handleImageCapture_def)

lemma history_run:
  "length (capturedImages s) \<le> 10 \<Longrightarrow> length (capturedImages (foldl step_event s evs)) \<le> 10"
  by (induction evs arbitrary: s) (simp_all add: history_step_event)

lemma take_nine:
  "length xs \<le> 10 \<Longrightarrow> take 9 xs = (if length xs = 10 then butlast xs else xs)"
  by (simp add: butlast_conv_take)

lemma history_page_run:
  "length (capturedImages (foldl step initial_state es)) \<le> 10"
  using history_run [of initial_state "map Page es"]
  by (simp add: initial_state_def foldl_map)

lemma trim_empty: "trim t = [] \<longleftrightarrow> list_all is_whitespace t"
proof -
  have "trim t = [] \<longleftrightarrow> dropWhile is_whitespace (rev (dropWhile is_whitespace t)) = []"
    by (simp add: trim_def)
  also have "\<dots> \<longleftrightarrow> (\<forall>c \<in> set (dropWhile is_whitespace t). is_whitespace c)"
    by (simp only: dropWhile_eq_Nil_conv set_rev)
  also have "\<dots> \<longleftrightarrow> dropWhile is_whitespace t = []"
  proof
    assume all: "\<forall>c \<in> set (dropWhile is_whitespace t). is_whitespace c"
    show "dropWhile is_whitespace t = []"
    proof (rule ccontr)
      assume ne: "dropWhile is_whitespace t \<noteq> []"
      then have "\<not> is_whitespace (hd (dropWhile is_whitespace t))"
        by (rule hd_dropWhile)
      moreover from ne have "hd (dropWhile is_whitespace t) \<in> set (dropWhile is_whitespace t)"
        by (rule hd_in_set)
      ultimately show False using all by blast
    qed
  next
    assume "dropWhile is_whitespace t = []"
    then show "\<forall>c \<in> set (dropWhile is_whitespace t). is_whitespace c"
      by (simp only: set_simps ball_empty)
  qed
  also have "\<dots> \<longleftrightarrow> list_all is_whitespace t"
    by (simp add: dropWhile_eq_Nil_conv list_all_iff)
  finally show ?thesis .
qed

lemma sent_step:
  "p \<in> set (drop (length (inflight s)) (inflight (step s e))) \<Longrightarrow>
     req_prompts (request_of p) = apiPrompts (prompts s)"
proof (cases e)
  case ClickRunDetection
  assume "p \<in> set (drop (length (inflight s)) (inflight (step s e)))"
  then show ?thesis using ClickRunDetection
    by (auto simp: handleConfirmDetection_def detectObjects_def split: option.splits if_splits)
next
  case (RequestResolved i results now)
  assume "p \<in> set (drop (length (inflight s)) (inflight (step s e)))"
  then show ?thesis using RequestResolved
    by (cases "inflight s ! i")
       (auto simp: confirmResolved_def captureResolved_def settle_def split: if_splits)
next
  case (RequestRejected i msg)
  assume "p \<in> set (drop (length (inflight s)) (inflight (step s e)))"
  then show ?thesis using RequestRejected
    by (auto simp: detectionRejected_def settle_def split: if_splits)
next
  case (ClickDetect r)
  assume "p \<in> set (drop (length (inflight s)) (inflight (step s e)))"
  then show ?thesis using ClickDetect
    by (auto simp: handleDetect_def split: capture_result.splits if_splits)
next
  case (ClickCapture i)
  assume "p \<in> set (drop (length (inflight s)) (inflight (step s e)))"
  then show ?thesis using ClickCapture
    by (auto simp: selectCapture_def Let_def split: option.splits if_splits)
qed (auto simp: handleCancelPreview_def handleClearResults_def split: if_splits)

text \<open>
  Claim C7.  In every state the page reaches from its initial state through its controls,
  the map's events and the settling of requests, at most one detection request is in
  flight, \<open>isLoading\<close> holds exactly while one is, both detection triggers are disabled
  exactly while \<open>isLoading\<close>, and while a request is in flight no event starts another.
\<close>

theorem single_request_in_flight:
  "length (inflight (foldl step initial_state es)) \<le> 1
   \<and> isLoading (foldl step initial_state es) = (inflight (foldl step initial_state es) \<noteq> [])
   \<and> detectDisabled (foldl step initial_state es) = isLoading (foldl step initial_state es)
   \<and> runDetectionDisabled (foldl step initial_state es) = isLoading (foldl step initial_state es)
   \<and> (inflight (foldl step initial_state es) \<noteq> [] \<longrightarrow>
        length (inflight (step (foldl step initial_state es) e))
          \<le> length (inflight (foldl step initial_state es)))"
proof -
  have a: "one_request (foldl step initial_state es)"
    by (rule one_request_reachable)
  have b: "one_request (step (foldl step initial_state es) e)"
    by (rule one_request_step [OF a])
  show ?thesis
    using a b
    by (cases "inflight (foldl step initial_state es)")
       (auto simp: one_request_def detectDisabled_def runDetectionDisabled_def)
qed

theorem single_request_in_flight_witness:
  "inflight (foldl step initial_state
       [MapReady, ClickDetect (Captured ''data:image/png;base64,iVBORw0KGgo='' \<lparr>north = Fin 1, south = Fin 0, east = Fin 1, west = Fin 0\<rparr>),
        ClickRunDetection, ClickCapture 0]) \<noteq> []
   \<and> length (inflight (step (foldl step initial_state
       [MapReady, ClickDetect (Captured ''data:image/png;base64,iVBORw0KGgo='' \<lparr>north = Fin 1, south = Fin 0, east = Fin 1, west = Fin 0\<rparr>),
        ClickRunDetection, ClickCapture 0]) ClickRunDetection))
     \<le> length (inflight (foldl step initial_state
       [MapReady, ClickDetect (Captured ''data:image/png;base64,iVBORw0KGgo='' \<lparr>north = Fin 1, south = Fin 0, east = Fin 1, west = Fin 0\<rparr>),
        ClickRunDetection, ClickCapture 0]))"
proof -
  let ?es = "[MapReady, ClickDetect (Captured ''data:image/png;base64,iVBORw0KGgo='' \<lparr>north = Fin 1, south = Fin 0, east = Fin 1, west = Fin 0\<rparr>),
        ClickRunDetection, ClickCapture 0]"
  have ne: "inflight (foldl step initial_state ?es) \<noteq> []"
    by (simp add: initial_state_def detectDisabled_def handleDetect_def modalRendered_def
          runDetectionDisabled_def handleConfirmDetection_def)
  from single_request_in_flight [of ?es ClickRunDetection] ne show ?thesis by blast
qed

text \<open>
  The capture function stored in \<open>window.__mapCapture\<close> is not among those events:
  \<open>handleImageCapture\<close> does not look at \<open>isLoading\<close>, and two calls from outside the page
  leave two requests in flight.
\<close>

lemma map_capture_hook_unguarded:
  "length (inflight (foldl step_event initial_state
      [Page MapReady,
       MapCaptureHook ''data:image/png;base64,iVBORw0KGgo='' \<lparr>north = Fin 1, south = Fin 0, east = Fin 1, west = Fin 0\<rparr>,
       MapCaptureHook ''data:image/png;base64,iVBORw0KGgo='' \<lparr>north = Fin 1, south = Fin 0, east = Fin 1, west = Fin 0\<rparr>]))
   = 2"
  by (simp add: initial_state_def handleImageCapture_def trim_def is_whitespace_def)

text \<open>
  Claim C9.  The history of captures never holds more than 10 entries, whatever events
  occur.  When a detection started from the page succeeds, the new capture is put at
  the front of the history, before the entries already there in their order; an
  eleventh entry, the oldest, is dropped from the end.
\<close>

theorem history_newest_first_bounded:
  "length (capturedImages (foldl step_event initial_state evs)) \<le> 10
   \<and> (inflight (foldl step initial_state es) \<noteq> [] \<longrightarrow>
        (\<exists>req texts.
           inflight (foldl step initial_state es) = [AwaitConfirm req texts]
           \<and> capturedImages (step (foldl step initial_state es) (RequestResolved 0 results now))
               = newCapture req texts results now
                 # (if length (capturedImages (foldl step initial_state es)) = 10
                    then butlast (capturedImages (foldl step initial_state es))
                    else capturedImages (foldl step initial_state es))))"
proof -
  have bound: "length (capturedImages (foldl step_event initial_state evs)) \<le> 10"
    by (rule history_run) (simp add: initial_state_def)
  have inv: "one_request (foldl step initial_state es)"
    by (rule one_request_reachable)
  have len: "length (capturedImages (foldl step initial_state es)) \<le> 10"
    by (rule history_page_run)
  define s where "s = foldl step initial_state es"
  have "\<exists>req texts. inflight s = [AwaitConfirm req texts]
          \<and> capturedImages (step s (RequestResolved 0 results now))
              = newCapture req texts results now
                # (if length (capturedImages s) = 10 then butlast (capturedImages s)
                   else capturedImages s)"
    if ne: "inflight s \<noteq> []"
  proof -
    from inv ne obtain p where p: "inflight s = [p]"
      unfolding s_def [symmetric] by (cases "inflight s") (auto simp: one_request_def)
    from inv p obtain req texts where q: "p = AwaitConfirm req texts"
      unfolding s_def [symmetric] by (cases p) (auto simp: one_request_def)
    have "take 10 (newCapture req texts results now # capturedImages s)
            = newCapture req texts results now # take 9 (capturedImages s)"
      by simp
    with p q len show ?thesis
      unfolding s_def [symmetric]
      by (simp add: confirmResolved_def settle_def take_nine del: take_Suc_Cons)
  qed
  with bound show ?thesis unfolding s_def by blast
qed

theorem history_newest_first_bounded_witness:
  "inflight (foldl step initial_state
       [MapReady, ClickDetect (Captured ''data:image/png;base64,iVBORw0KGgo='' \<lparr>north = Fin 1, south = Fin 0, east = Fin 1, west = Fin 0\<rparr>),
        ClickRunDetection]) \<noteq> []
   \<and> map cap_timestamp (capturedImages (step (foldl step initial_state
       [MapReady, ClickDetect (Captured ''data:image/png;base64,iVBORw0KGgo='' \<lparr>north = Fin 1, south = Fin 0, east = Fin 1, west = Fin 0\<rparr>),
        ClickRunDetection]) (RequestResolved 0 \<lparr>features = []\<rparr> 1700000000000))) = [1700000000000]"
proof -
  let ?es = "[MapReady, ClickDetect (Captured ''data:image/png;base64,iVBORw0KGgo='' \<lparr>north = Fin 1, south = Fin 0, east = Fin 1, west = Fin 0\<rparr>),
        ClickRunDetection]"
  have ne: "inflight (foldl step initial_state ?es) \<noteq> []"
    by (simp add: initial_state_def detectDisabled_def handleDetect_def modalRendered_def
          runDetectionDisabled_def handleConfirmDetection_def)
  have em: "capturedImages (foldl step initial_state ?es) = []"
    by (simp add: initial_state_def detectDisabled_def handleDetect_def modalRendered_def
          runDetectionDisabled_def handleConfirmDetection_def)
  from history_newest_first_bounded [of "[]" ?es "\<lparr>features = []\<rparr>" 1700000000000] ne
  obtain req texts where
    "capturedImages (step (foldl step initial_state ?es) (RequestResolved 0 \<lparr>features = []\<rparr> 1700000000000))
       = newCapture req texts \<lparr>features = []\<rparr> 1700000000000
         # (if length (capturedImages (foldl step initial_state ?es)) = 10
            then butlast (capturedImages (foldl step initial_state ?es))
            else capturedImages (foldl step initial_state ?es))"
    by blast
  with em have "map cap_timestamp (capturedImages (step (foldl step initial_state ?es)
      (RequestResolved 0 \<lparr>features = []\<rparr> 1700000000000))) = [1700000000000]"
    by (simp add: newCapture_def)
  with ne show ?thesis by blast
qed

text \<open>
  Claim C10.  Every detection request an event sends carries exactly the prompts of the
  page whose text is not blank, in the order of the prompt list, each with its text and
  color; a text is blank when trimming leaves nothing, that is when all of it is white
  space.
\<close>

theorem request_prompts_nonblank:
  "(\<forall>p \<in> set (drop (length (inflight s)) (inflight (step_event s ev))).
      req_prompts (request_of p)
        = map (\<lambda>q. \<lparr>api_text = prompt_text q, api_color = prompt_color q\<rparr>)
              (filter (\<lambda>q. trim (prompt_text q) \<noteq> []) (prompts s)))
   \<and> (trim t = [] \<longleftrightarrow> list_all is_whitespace t)"
proof -
  have "req_prompts (request_of p) = apiPrompts (prompts s)"
    if "p \<in> set (drop (length (inflight s)) (inflight (step_event s ev)))" for p
    using that
    by (cases ev) (auto simp: sent_step handleImageCapture_def detectObjects_def split: if_splits)
  then show ?thesis
    by (simp add: apiPrompts_def trim_empty)
qed

theorem request_prompts_nonblank_witness:
  "map (\<lambda>p. req_prompts (request_of p))
     (drop (length (inflight (foldl step initial_state
              [PromptAdded ''3'', PromptUpdated ''3'' (UpdateText ''  ''), MapReady,
               ClickDetect (Captured ''data:image/png;base64,iVBORw0KGgo='' \<lparr>north = Fin 1, south = Fin 0, east = Fin 1, west = Fin 0\<rparr>)])))
        (inflight (step_event (foldl step initial_state
              [PromptAdded ''3'', PromptUpdated ''3'' (UpdateText ''  ''), MapReady,
               ClickDetect (Captured ''data:image/png;base64,iVBORw0KGgo='' \<lparr>north = Fin 1, south = Fin 0, east = Fin 1, west = Fin 0\<rparr>)])
           (Page ClickRunDetection))))
   = [[\<lparr>api_text = ''trees'', api_color = ''#00FF00''\<rparr>,
       \<lparr>api_text = ''buildings'', api_color = ''#FF69B4''\<rparr>]]"
proof -
  define s where "s = foldl step initial_state
              [PromptAdded ''3'', PromptUpdated ''3'' (UpdateText ''  ''), MapReady,
               ClickDetect (Captured ''data:image/png;base64,iVBORw0KGgo='' \<lparr>north = Fin 1, south = Fin 0, east = Fin 1, west = Fin 0\<rparr>)]"
  define d where "d = drop (length (inflight s)) (inflight (step_event s (Page ClickRunDetection)))"
  have one: "length d = 1"
    unfolding d_def s_def
    by (simp add: initial_state_def detectDisabled_def handleDetect_def modalRendered_def
          runDetectionDisabled_def handleConfirmDetection_def addPrompt_def updatePrompt_def)
  then obtain p where d: "d = [p]"
    by (cases d) auto
  have ps: "map (\<lambda>q. \<lparr>api_text = prompt_text q, api_color = prompt_color q\<rparr>)
              (filter (\<lambda>q. trim (prompt_text q) \<noteq> []) (prompts s))
            = [\<lparr>api_text = ''trees'', api_color = ''#00FF00''\<rparr>,
               \<lparr>api_text = ''buildings'', api_color = ''#FF69B4''\<rparr>]"
    unfolding s_def
    by (simp add: initial_state_def detectDisabled_def handleDetect_def addPrompt_def
          updatePrompt_def trim_def is_whitespace_def DEFAULT_COLORS_def)
  from request_prompts_nonblank [of s "Page ClickRunDetection"] d ps
  have "req_prompts (request_of p) = [\<lparr>api_text = ''trees'', api_color = ''#00FF00''\<rparr>,
               \<lparr>api_text = ''buildings'', api_color = ''#FF69B4''\<rparr>]"
    unfolding d_def by simp
  with d show ?thesis unfolding d_def s_def by simp
qed

end
